theory Spec2Isabelle
  imports Main
begin

section \<open>The shopping cart of src/shopping\_cart.py\<close>

text \<open>
  The exceptions of the Python runtime that matter here. \<open>OverflowError\<close> is the one
  \<open>add\<close> raises on a full cart. \<open>TypeError\<close> is what the addition \<open>int + None\<close>
  raises. \<open>KeyError\<close> is what a subscript \<open>d[k]\<close> raises on a missing key; it is
  listed so that statements can tell it apart from the other two.
\<close>

datatype error = OverflowError | TypeError | KeyError

text \<open>
  The class \<open>ShoppingCart\<close> has two fields: the list of items and the capacity, a Python
  \<open>int\<close>.
\<close>

record ShoppingCart =
  items :: "string list"
  max_size :: int

text \<open>\<open>__init__\<close>: an empty list and the capacity 5.\<close>

definition init_cart :: ShoppingCart where
  "init_cart = \<lparr>items = [], max_size = 5\<rparr>"

text \<open>
  Every method takes the object and returns its result together with the object after the
  call, so that what a call does to the fields is part of the model. Prices are Python
  ints; a price dictionary is a finite map from item names to ints.
\<close>

type_synonym price_dict = "string \<rightharpoonup> int"

text \<open>\<open>size\<close>: \<open>len(self.items)\<close>.\<close>

definition size_cart :: "ShoppingCart \<Rightarrow> int \<times> ShoppingCart" where
  "size_cart c = (int (length (items c)), c)"

text \<open>
  \<open>add\<close>: raises \<open>OverflowError\<close> when \<open>self.size() == self.max_size\<close>, otherwise
  appends the item.
\<close>

definition add :: "string \<Rightarrow> ShoppingCart \<Rightarrow> (error + unit) \<times> ShoppingCart" where
  "add item c =
     (case size_cart c of (n, c1) \<Rightarrow>
        if n = max_size c1 then (Inl OverflowError, c1)
        else (Inr (), c1\<lparr>items := items c1 @ [item]\<rparr>))"

text \<open>
  \<open>get_items\<close> is annotated \<open>List[str] | None\<close> and returns \<open>self.items\<close>.
\<close>

definition get_items :: "ShoppingCart \<Rightarrow> string list option \<times> ShoppingCart" where
  "get_items c = (Some (items c), c)"

text \<open>
  The loop of \<open>get_total_price\<close>: \<open>total_price += price_dict.get(item)\<close>. \<open>dict.get\<close>
  returns \<open>None\<close> for a missing key and raises nothing; the addition of \<open>None\<close> to the
  running total then raises \<open>TypeError\<close>.
\<close>

fun price_loop :: "price_dict \<Rightarrow> string list \<Rightarrow> int \<Rightarrow> error + int" where
  "price_loop pd [] total_price = Inr total_price"
| "price_loop pd (item # rest) total_price =
     (case pd item of
        None \<Rightarrow> Inl TypeError
      | Some p \<Rightarrow> price_loop pd rest (total_price + p))"

definition get_total_price :: "ShoppingCart \<Rightarrow> price_dict \<Rightarrow> (error + int) \<times> ShoppingCart" where
  "get_total_price c pd = (price_loop pd (items c) 0, c)"

subsection \<open>Sequences of calls\<close>

text \<open>
  A caller adding a list of items one after the other, as the loop of \<open>test_cart_full\<close>
  does; the first exception ends the sequence.
\<close>

fun add_all :: "string list \<Rightarrow> ShoppingCart \<Rightarrow> error + ShoppingCart" where
  "add_all [] c = Inr c"
| "add_all (x # xs) c =
     (case add x c of
        (Inl e, c') \<Rightarrow> Inl e
      | (Inr u, c') \<Rightarrow> add_all xs c')"

text \<open>
  Any call of the public interface, and the object it leaves behind whether it returned or
  raised; \<open>run\<close> makes a list of calls one after the other.
\<close>

datatype call = Add string | Size | GetItems | GetTotalPrice price_dict

fun step :: "call \<Rightarrow> ShoppingCart \<Rightarrow> ShoppingCart" where
  "step (Add item) c = snd (add item c)"
| "step Size c = snd (size_cart c)"
| "step GetItems c = snd (get_items c)"
| "step (GetTotalPrice pd) c = snd (get_total_price c pd)"

fun run :: "call list \<Rightarrow> ShoppingCart \<Rightarrow> ShoppingCart" where
  "run [] c = c"
| "run (k # ks) c = run ks (step k c)"

section \<open>Auxiliary facts\<close>

lemma price_loop_sum:
  "set xs \<subseteq> dom pd \<Longrightarrow>
   price_loop pd xs t = Inr (t + sum_list (map (\<lambda>i. the (pd i)) xs))"
  by (induction xs arbitrary: t) auto

lemma price_loop_missing:
  "\<not> set xs \<subseteq> dom pd \<Longrightarrow> price_loop pd xs t = Inl TypeError"
  by (induction xs arbitrary: t) (auto split: option.splits)

lemma sum_list_split_item:
  fixes f :: "'a \<Rightarrow> int"
  shows "sum_list (map f xs) =
         int (count_list xs x) * f x + sum_list (map f (filter (\<lambda>i. i \<noteq> x) xs))"
  by (induction xs) (auto simp: algebra_simps)

lemma add_below:
  "int (length (items c)) \<noteq> max_size c \<Longrightarrow>
   add item c = (Inr (), c\<lparr>items := items c @ [item]\<rparr>)"
  by (simp add: add_def size_cart_def)

lemma add_full:
  "int (length (items c)) = max_size c \<Longrightarrow> add item c = (Inl OverflowError, c)"
  by (simp add: add_def size_cart_def)

lemma add_all_result:
  "add_all xs c = Inr c' \<Longrightarrow> c' = c\<lparr>items := items c @ xs\<rparr>"
proof (induction xs arbitrary: c)
  case Nil
  then show ?case by simp
next
  case (Cons x xs)
  show ?case
  proof (cases "int (length (items c)) = max_size c")
    case True
    with Cons.prems show ?thesis by (simp add: add_full)
  next
    case False
    with Cons.prems have "add_all xs (c\<lparr>items := items c @ [x]\<rparr>) = Inr c'"
      by (simp add: add_below)
    from Cons.IH [OF this] show ?thesis by simp
  qed
qed

lemma add_all_fits:
  "int (length (items c)) + int (length xs) \<le> max_size c \<Longrightarrow>
   add_all xs c = Inr (c\<lparr>items := items c @ xs\<rparr>)"
proof (induction xs arbitrary: c)
  case Nil
  then show ?case by simp
next
  case (Cons x xs)
  from Cons.prems have ne: "int (length (items c)) \<noteq> max_size c" by simp
  have "add_all xs (c\<lparr>items := items c @ [x]\<rparr>) =
        Inr (c\<lparr>items := items c @ [x]\<rparr>\<lparr>items := items (c\<lparr>items := items c @ [x]\<rparr>) @ xs\<rparr>)"
    using Cons.prems by (intro Cons.IH) simp
  then show ?case by (simp add: add_below [OF ne])
qed

lemma step_bounded:
  "int (length (items c)) \<le> max_size c \<Longrightarrow>
   int (length (items (step k c))) \<le> max_size (step k c)"
  by (cases k) (auto simp: add_def size_cart_def get_items_def get_total_price_def)

lemma step_max_size: "max_size (step k c) = max_size c"
  by (cases k) (auto simp: add_def size_cart_def get_items_def get_total_price_def)

lemma run_bounded:
  "int (length (items c)) \<le> max_size c \<Longrightarrow>
   int (length (items (run ks c))) \<le> max_size (run ks c)"
  by (induction ks arbitrary: c) (auto intro: step_bounded)

lemma run_max_size: "max_size (run ks c) = max_size c"
  by (induction ks arbitrary: c) (auto simp: step_max_size)

section \<open>The claims\<close>

text \<open>
  C1. When every item of the cart is a key of the price dictionary, \<open>get_total_price\<close>
  returns the sum, from zero, of the prices looked up for the items; the cart holding
  water, coffee and milk with the prices 1, 3 and 2 gives 6.
\<close>

theorem get_total_price_sum:
  "set (items c) \<subseteq> dom pd \<Longrightarrow>
   fst (get_total_price c pd) = Inr (0 + sum_list (map (\<lambda>i. the (pd i)) (items c)))"
  by (simp add: get_total_price_def price_loop_sum)

theorem get_total_price_sum_witness:
  "set (items \<lparr>items = [''water'', ''coffee'', ''milk''], max_size = 5\<rparr>)
     \<subseteq> dom [''water'' \<mapsto> 1, ''coffee'' \<mapsto> 3, ''milk'' \<mapsto> 2]
   \<and> fst (get_total_price \<lparr>items = [''water'', ''coffee'', ''milk''], max_size = 5\<rparr>
        [''water'' \<mapsto> 1, ''coffee'' \<mapsto> 3, ''milk'' \<mapsto> 2]) = Inr 6"
  using get_total_price_sum
    [of "\<lparr>items = [''water'', ''coffee'', ''milk''], max_size = 5\<rparr>"
        "[''water'' \<mapsto> 1, ''coffee'' \<mapsto> 3, ''milk'' \<mapsto> 2]"]
  by simp

text \<open>
  C2, as the code has it. When some item of the cart is not a key of the price dictionary,
  \<open>get_total_price\<close> raises \<open>TypeError\<close> (the lookup \<open>dict.get\<close> gives \<open>None\<close> and the
  addition fails), and no sum is returned.
\<close>

theorem get_total_price_missing:
  "\<not> set (items c) \<subseteq> dom pd \<Longrightarrow>
   fst (get_total_price c pd) = Inl TypeError \<and> fst (get_total_price c pd) \<noteq> Inr s"
  by (simp add: get_total_price_def price_loop_missing)

theorem get_total_price_missing_witness:
  "\<not> set (items \<lparr>items = [''water'', ''tea''], max_size = 5\<rparr>) \<subseteq> dom [''water'' \<mapsto> 1]
   \<and> fst (get_total_price \<lparr>items = [''water'', ''tea''], max_size = 5\<rparr> [''water'' \<mapsto> 1])
       = Inl TypeError
   \<and> fst (get_total_price \<lparr>items = [''water'', ''tea''], max_size = 5\<rparr> [''water'' \<mapsto> 1])
       \<noteq> Inr 1"
  using get_total_price_missing
    [of "\<lparr>items = [''water'', ''tea''], max_size = 5\<rparr>" "[''water'' \<mapsto> 1]" 1]
  by simp

text \<open>
  C2, as the claim states it, fails: with the items water and tea and a price for water
  only, the error is not \<open>KeyError\<close>.
\<close>

theorem get_total_price_keyerror_counterexample:
  "''tea'' \<in> set (items \<lparr>items = [''water'', ''tea''], max_size = 5\<rparr>)
   \<and> ''tea'' \<notin> dom [''water'' \<mapsto> (1::int)]
   \<and> fst (get_total_price \<lparr>items = [''water'', ''tea''], max_size = 5\<rparr> [''water'' \<mapsto> 1])
       \<noteq> Inl KeyError"
  by (simp add: get_total_price_def)

text \<open>
  C3. On a cart whose length equals \<open>max_size\<close>, \<open>add\<close> raises \<open>OverflowError\<close> for every
  item and the cart after the call is the cart before it.
\<close>

theorem add_at_capacity:
  "int (length (items c)) = max_size c \<Longrightarrow> add item c = (Inl OverflowError, c)"
  by (simp add: add_def size_cart_def)

theorem add_at_capacity_witness:
  "int (length (items \<lparr>items = [''s'', ''s'', ''s'', ''s'', ''s''], max_size = 5\<rparr>))
     = max_size \<lparr>items = [''s'', ''s'', ''s'', ''s'', ''s''], max_size = 5\<rparr>
   \<and> add ''coffee'' \<lparr>items = [''s'', ''s'', ''s'', ''s'', ''s''], max_size = 5\<rparr>
       = (Inl OverflowError, \<lparr>items = [''s'', ''s'', ''s'', ''s'', ''s''], max_size = 5\<rparr>)"
  using add_at_capacity
    [of "\<lparr>items = [''s'', ''s'', ''s'', ''s'', ''s''], max_size = 5\<rparr>" "''coffee''"]
  by simp

text \<open>
  C4. On a cart whose length is below \<open>max_size\<close>, \<open>add\<close> returns normally for every item,
  the empty string and items already present included, and the items afterwards are the
  old ones followed by the new item.
\<close>

theorem add_below_capacity:
  "int (length (items c)) < max_size c \<Longrightarrow>
   add item c = (Inr (), c\<lparr>items := items c @ [item]\<rparr>)"
  by (simp add: add_def size_cart_def)

theorem add_below_capacity_witness:
  "int (length (items \<lparr>items = [''apple'', []], max_size = 5\<rparr>))
     < max_size \<lparr>items = [''apple'', []], max_size = 5\<rparr>
   \<and> add ''apple'' \<lparr>items = [''apple'', []], max_size = 5\<rparr>
       = (Inr (), \<lparr>items = [''apple'', [], ''apple''], max_size = 5\<rparr>)"
  using add_below_capacity [of "\<lparr>items = [''apple'', []], max_size = 5\<rparr>" "''apple''"]
  by simp

text \<open>
  C5. A new cart is empty with \<open>max_size\<close> 5, and after any list of calls of \<open>add\<close>,
  \<open>size\<close>, \<open>get_items\<close> and \<open>get_total_price\<close> on it, whether they returned or raised,
  the number of items is between 0 and \<open>max_size\<close>.
\<close>

theorem cart_invariant:
  "items init_cart = [] \<and> max_size init_cart = 5
   \<and> 0 \<le> int (length (items (run ks init_cart)))
   \<and> int (length (items (run ks init_cart))) \<le> max_size (run ks init_cart)"
proof -
  have "int (length (items init_cart)) \<le> max_size init_cart"
    by (simp add: init_cart_def)
  then have "int (length (items (run ks init_cart))) \<le> max_size (run ks init_cart)"
    by (rule run_bounded)
  then show ?thesis by (simp add: init_cart_def)
qed

text \<open>
  C6. When the calls \<open>add\<close> of a list of items on a new cart all return, \<open>size\<close> then
  returns the number of these calls; they do all return when that number is at most
  \<open>max_size\<close>. On any cart \<open>size\<close> returns the number of items, which is never negative.
\<close>

theorem size_after_adds:
  "(add_all xs init_cart = Inr c' \<longrightarrow> fst (size_cart c') = int (length xs))
   \<and> (int (length xs) \<le> max_size init_cart \<longrightarrow>
        (\<exists>d. add_all xs init_cart = Inr d \<and> fst (size_cart d) = int (length xs)))
   \<and> fst (size_cart c) = int (length (items c))
   \<and> 0 \<le> fst (size_cart c)"
proof -
  have a: "fst (size_cart c') = int (length xs)" if "add_all xs init_cart = Inr c'"
    using add_all_result [OF that] by (simp add: size_cart_def init_cart_def)
  have b: "\<exists>d. add_all xs init_cart = Inr d \<and> fst (size_cart d) = int (length xs)"
    if "int (length xs) \<le> max_size init_cart"
  proof -
    from that have "int (length (items init_cart)) + int (length xs) \<le> max_size init_cart"
      by (simp add: init_cart_def)
    then have "add_all xs init_cart = Inr (init_cart\<lparr>items := items init_cart @ xs\<rparr>)"
      by (rule add_all_fits)
    then show ?thesis by (simp add: size_cart_def init_cart_def)
  qed
  from a b show ?thesis by (simp add: size_cart_def)
qed

theorem size_after_adds_witness:
  "add_all [''apple''] init_cart = Inr \<lparr>items = [''apple''], max_size = 5\<rparr>
   \<and> int (length [''apple'']) \<le> max_size init_cart
   \<and> fst (size_cart \<lparr>items = [''apple''], max_size = 5\<rparr>) = 1"
  using size_after_adds
    [of "[''apple'']" "\<lparr>items = [''apple''], max_size = 5\<rparr>"
        "\<lparr>items = [''apple''], max_size = 5\<rparr>"]
  by (simp add: init_cart_def add_def size_cart_def)

text \<open>
  C7. \<open>get_items\<close> returns the items in the order of their insertion: after the calls
  \<open>add\<close> of a list of at most \<open>max_size\<close> items on a new cart, and so of any three items
  a, b, c, it returns that list; on a new cart it returns the empty list; it never returns
  \<open>None\<close>.
\<close>

theorem get_items_order:
  "(int (length xs) \<le> max_size init_cart \<longrightarrow>
      (\<exists>d. add_all xs init_cart = Inr d \<and> fst (get_items d) = Some xs))
   \<and> (\<exists>d. add_all [a, b, c] init_cart = Inr d \<and> fst (get_items d) = Some [a, b, c])
   \<and> fst (get_items init_cart) = Some []
   \<and> fst (get_items s) = Some (items s)
   \<and> fst (get_items s) \<noteq> None"
proof -
  have g: "\<exists>d. add_all ys init_cart = Inr d \<and> fst (get_items d) = Some ys"
    if "int (length ys) \<le> max_size init_cart" for ys
  proof -
    from that have "int (length (items init_cart)) + int (length ys) \<le> max_size init_cart"
      by (simp add: init_cart_def)
    then have "add_all ys init_cart = Inr (init_cart\<lparr>items := items init_cart @ ys\<rparr>)"
      by (rule add_all_fits)
    then show ?thesis by (simp add: get_items_def init_cart_def)
  qed
  have three: "int (length [a, b, c]) \<le> max_size init_cart"
    by (simp add: init_cart_def)
  from g [of xs] g [OF three] show ?thesis
    by (simp add: get_items_def init_cart_def)
qed

theorem get_items_order_witness:
  "int (length [''rice'', ''apple'']) \<le> max_size init_cart
   \<and> add_all [''rice'', ''apple''] init_cart = Inr \<lparr>items = [''rice'', ''apple''], max_size = 5\<rparr>
   \<and> fst (get_items \<lparr>items = [''rice'', ''apple''], max_size = 5\<rparr>) = Some [''rice'', ''apple'']"
  using get_items_order
    [of "[''rice'', ''apple'']" "''a''" "''b''" "''c''"
        "\<lparr>items = [''rice'', ''apple''], max_size = 5\<rparr>"]
  by (simp add: init_cart_def add_def size_cart_def get_items_def)

text \<open>
  C8. On a cart without items \<open>get_total_price\<close> returns 0 for every price dictionary,
  the empty one included.
\<close>

theorem empty_cart_total:
  "items c = [] \<Longrightarrow> fst (get_total_price c pd) = Inr 0"
  by (simp add: get_total_price_def)

theorem empty_cart_total_witness:
  "items init_cart = [] \<and> fst (get_total_price init_cart Map.empty) = Inr 0"
  using empty_cart_total [of init_cart Map.empty]
  by (simp add: init_cart_def)

text \<open>
  C9. The cart after a call of \<open>size\<close>, \<open>get_items\<close> or \<open>get_total_price\<close> is the cart
  before it, for every cart and every price dictionary, also when \<open>get_total_price\<close>
  raises.
\<close>

theorem queries_leave_cart:
  "snd (size_cart c) = c \<and> snd (get_items c) = c \<and> snd (get_total_price c pd) = c"
  by (simp add: size_cart_def get_items_def get_total_price_def)

text \<open>
  C10. When every item of the cart has a price and the item \<open>x\<close> has the price \<open>p\<close>, the
  total is the number of occurrences of \<open>x\<close> times \<open>p\<close> plus the prices of the other
  items.
\<close>

theorem duplicates_counted:
  "set (items c) \<subseteq> dom pd \<Longrightarrow> pd x = Some p \<Longrightarrow>
   fst (get_total_price c pd) =
     Inr (int (count_list (items c) x) * p
          + sum_list (map (\<lambda>i. the (pd i)) (filter (\<lambda>i. i \<noteq> x) (items c))))"
  using sum_list_split_item [of "\<lambda>i. the (pd i)" "items c" x]
  by (simp add: get_total_price_def price_loop_sum)

theorem duplicates_counted_witness:
  "set (items \<lparr>items = [''milk'', ''water'', ''milk''], max_size = 5\<rparr>)
     \<subseteq> dom [''water'' \<mapsto> 1, ''milk'' \<mapsto> 2]
   \<and> [''water'' \<mapsto> 1, ''milk'' \<mapsto> 2] ''milk'' = Some 2
   \<and> count_list (items \<lparr>items = [''milk'', ''water'', ''milk''], max_size = 5\<rparr>) ''milk'' = 2
   \<and> fst (get_total_price \<lparr>items = [''milk'', ''water'', ''milk''], max_size = 5\<rparr>
        [''water'' \<mapsto> 1, ''milk'' \<mapsto> 2]) = Inr 5"
  using duplicates_counted
    [of "\<lparr>items = [''milk'', ''water'', ''milk''], max_size = 5\<rparr>"
        "[''water'' \<mapsto> 1, ''milk'' \<mapsto> 2]" "''milk''" 2]
  by simp

end
